theory Spec2Isabelle
  imports Main "HOL-Library.Word" "HOL-Library.Sublist" "HOL-Library.Signed_Division"
    "HOL-Library.Monad_Syntax"
begin

unbundle bit_operations_syntax

section \<open>Tokens and expression nodes\<close>

text \<open>
  A shallow embedding of \<^verbatim>\<open>AutoGrad.cpp\<close>. The C++ \<^verbatim>\<open>int\<close> fields (token ids,
  numerators, denominators) are modelled as \<^typ>\<open>int\<close>: signed overflow is undefined
  behaviour in C++, so the source gives no meaning to values outside the 32-bit range.
  The hash type \<^verbatim>\<open>unsigned long long\<close> is a 64-bit word, where \<open>+\<close> and \<open>*\<close> wrap.
\<close>

type_synonym ExprHash = "64 word"

definition TransformHash :: "ExprHash \<Rightarrow> ExprHash" where
  "TransformHash H = H * 6364136223846793005 + 7"

datatype Type = Int_Ty | Variable | Function | Operator

datatype Token = Token (Ty: Type) (ID: int)

text \<open>
  The enumerators of \<^verbatim>\<open>Token::Type\<close> are numbered in declaration order
  (\<open>Int_Ty\<close> is the enumerator \<^verbatim>\<open>Int\<close>, a name HOL already uses).
\<close>

fun Type_code :: "Type \<Rightarrow> ExprHash" where
  "Type_code Int_Ty = 0"
| "Type_code Variable = 1"
| "Type_code Function = 2"
| "Type_code Operator = 3"

text \<open>
  \<^verbatim>\<open>Token::Hash\<close> reads the eight bytes of the token (\<^verbatim>\<open>Ty\<close>, then \<^verbatim>\<open>ID\<close>) as one
  64-bit value. On a little-endian machine \<^verbatim>\<open>Ty\<close> is the low half and the two's
  complement image of \<^verbatim>\<open>ID\<close> the high half.
\<close>

definition Token_raw :: "Token \<Rightarrow> ExprHash" where
  "Token_raw T = Type_code (Ty T) + push_bit 32 (ucast (word_of_int (ID T) :: 32 word))"

definition Token_Hash :: "Token \<Rightarrow> ExprHash" where
  "Token_Hash T = TransformHash (Token_raw T)"

text \<open>Operator tokens carry the character code of the operator.\<close>

definition Opr :: "char \<Rightarrow> Token" where
  "Opr c = Token Operator (of_char c)"

definition ADD :: Token where "ADD = Opr CHR ''+''"
definition SUB :: Token where "SUB = Opr CHR ''-''"
definition MUL :: Token where "MUL = Opr CHR ''*''"
definition DIV :: Token where "DIV = Opr CHR ''/''"
definition POW :: Token where "POW = Opr CHR ''^''"

text \<open>
  An \<^verbatim>\<open>ExprNode*\<close> is either the null pointer or a node with a token and two operand
  pointers. The \<^verbatim>\<open>Prev\<close>/\<^verbatim>\<open>Next\<close> links exist only while parsing, where the
  linked list is modelled as a list of nodes.
\<close>

datatype ExprNode = Null | Node (V: Token) (L: ExprNode) (R: ExprNode)

section \<open>Structural hashing\<close>

text \<open>
  \<^verbatim>\<open>TraverseTreeNodes_Impl\<close>: descend through nodes whose token equals the required
  one and collect every other non-null node, left to right.
\<close>

fun TraverseTreeNodes_Impl :: "ExprNode \<Rightarrow> Token \<Rightarrow> ExprNode list" where
  "TraverseTreeNodes_Impl Null RequiredParentType = []"
| "TraverseTreeNodes_Impl (Node v l r) RequiredParentType =
     (if v = RequiredParentType
      then TraverseTreeNodes_Impl l RequiredParentType @ TraverseTreeNodes_Impl r RequiredParentType
      else [Node v l r])"

definition TraverseTreeNodes :: "ExprNode \<Rightarrow> Token \<Rightarrow> ExprNode list" where
  "TraverseTreeNodes pNode RequiredParentType = TraverseTreeNodes_Impl pNode RequiredParentType"

text \<open>
  \<^verbatim>\<open>ExprNode::Hash\<close>. For \<open>+\<close> and \<open>*\<close> the node is flattened with its own token
  as the required parent type and the transformed hashes of the collected operands are
  added to the token hash; for every other token the transformed hashes of the left and
  of the right operand are added to it. A null operand adds 0.
\<close>

function Hash :: "ExprNode \<Rightarrow> ExprHash" where
  "Hash Null = 0"
| "Hash (Node v l r) =
     (if v = ADD \<or> v = MUL
      then Token_Hash v
           + sum_list (map (\<lambda>p. if p \<noteq> Null then TransformHash (Hash p) else 0)
               (TraverseTreeNodes (Node v l r) v))
      else Token_Hash v
           + (if l \<noteq> Null then TransformHash (Hash l) else 0)
           + (if r \<noteq> Null then TransformHash (Hash r) else 0))"
  by pat_completeness auto
termination
proof (relation "measure size")
  show "wf (measure size)" by simp
next
  fix v l r x
  assume x: "x \<in> set (TraverseTreeNodes (Node v l r) v)"
  have le: "y \<in> set (TraverseTreeNodes_Impl t v) \<Longrightarrow> size y \<le> size t" for y t
    by (induction t) (auto split: if_splits)
  from x have "size x \<le> size l \<or> size x \<le> size r"
    by (auto simp: TraverseTreeNodes_def dest: le)
  then show "(x, Node v l r) \<in> measure size" by auto
qed auto

text \<open>\<^verbatim>\<open>Equal\<close>: two subtrees are taken to be the same when their hashes agree.\<close>

definition Equal :: "ExprNode \<Rightarrow> ExprNode \<Rightarrow> bool" where
  "Equal l r = (Hash l = Hash r)"

section \<open>Round state\<close>

text \<open>
  The process-wide variables a round reads and writes: the variable table
  (\<^verbatim>\<open>VarMaxID\<close>, \<^verbatim>\<open>Vars\<close>, \<^verbatim>\<open>VarMap\<close>), the set \<^verbatim>\<open>Extracted\<close>, the two error
  flags, and the lines written to the standard output. \<^verbatim>\<open>VarMap\<close> is a
  \<^verbatim>\<open>std::map<std::string,int>\<close>: it is kept as an association list in ascending key
  order, which is the order its iteration yields.
\<close>

record round =
  VarMaxID :: int
  Vars :: "string list"
  VarMap :: "(string \<times> int) list"
  Extracted :: "ExprHash set"
  FailedToParse :: bool
  DividedbyZero :: bool
  stdout :: "string list"

definition puts :: "string \<Rightarrow> round \<Rightarrow> round" where
  "puts s st = st\<lparr>stdout := stdout st @ [s]\<rparr>"

text \<open>
  The report shared by \<^verbatim>\<open>Fraction::Simplify\<close> and \<^verbatim>\<open>FinalFold_GCDPoly\<close>: print the
  message unless the flag is already up, then raise the flag.
\<close>

definition Divided_by_0 :: "round \<Rightarrow> round" where
  "Divided_by_0 st =
     (if \<not> DividedbyZero st then puts ''Runtime Error: Divided by 0'' st else st)
       \<lparr>DividedbyZero := True\<rparr>"

section \<open>Rational coefficients\<close>

datatype Fraction = Fraction (N: int) (D: int)








text \<open>\<^verbatim>\<open>operator==(int)\<close>.\<close>

definition Fraction_eq_int :: "Fraction \<Rightarrow> int \<Rightarrow> bool" where
  "Fraction_eq_int F r = (N F = r \<and> D F = 1)"

text \<open>The state of a round before anything has happened in it.\<close>

definition round0 :: round where
  "round0 = \<lparr>VarMaxID = 0, Vars = [], VarMap = [], Extracted = {},
     FailedToParse = False, DividedbyZero = False, stdout = []\<rparr>"

section \<open>Lexer\<close>

datatype TokCond = TC_Null | TC_Operator | TC_Symbol | TC_Number

text \<open>
  The characters \<^verbatim>\<open>"+-*/^,()"\<close> of \<^verbatim>\<open>Operators\<close>; \<^verbatim>\<open>isdigit\<close> and \<^verbatim>\<open>isalpha\<close> are those
  of the C locale.
\<close>

definition Operators :: string where
  "Operators = ''+-*/^,()''"

definition IsOpr :: "char \<Rightarrow> bool" where
  "IsOpr c = (c \<in> set Operators)"

definition isdigit :: "char \<Rightarrow> bool" where
  "isdigit c = ((48::nat) \<le> of_char c \<and> of_char c \<le> (57::nat))"

definition isalpha :: "char \<Rightarrow> bool" where
  "isalpha c = (((65::nat) \<le> of_char c \<and> of_char c \<le> (90::nat))
              \<or> ((97::nat) \<le> of_char c \<and> of_char c \<le> (122::nat)))"

definition Judge :: "char \<Rightarrow> TokCond" where
  "Judge c = (if isdigit c then TC_Number
              else if isalpha c then TC_Symbol
              else if IsOpr c then TC_Operator
              else TC_Null)"

text \<open>The table \<^verbatim>\<open>Funcs\<close>: name and number of parameters, indexed by function id.\<close>

definition Funcs :: "(string \<times> int) list" where
  "Funcs = [(''ln'', 1), (''log'', 2), (''cos'', 1), (''sin'', 1), (''tan'', 1),
            (''pow'', 2), (''exp'', 1), (''sinh'', 1), (''cosh'', 1)]"

definition FUNC_ln :: int where "FUNC_ln = 0"
definition FUNC_log :: int where "FUNC_log = 1"
definition FUNC_cos :: int where "FUNC_cos = 2"
definition FUNC_sin :: int where "FUNC_sin = 3"
definition FUNC_tan :: int where "FUNC_tan = 4"
definition FUNC_pow :: int where "FUNC_pow = 5"
definition FUNC_exp :: int where "FUNC_exp = 6"
definition FUNC_sinh :: int where "FUNC_sinh = 7"
definition FUNC_cosh :: int where "FUNC_cosh = 8"

definition NFuncs :: int where
  "NFuncs = int (length Funcs)"

fun GetFuncID_from :: "(string \<times> int) list \<Rightarrow> int \<Rightarrow> string \<Rightarrow> int" where
  "GetFuncID_from [] i Name = - 1"
| "GetFuncID_from (f # fs) i Name = (if fst f = Name then i else GetFuncID_from fs (i + 1) Name)"

definition GetFuncID :: "string \<Rightarrow> int" where
  "GetFuncID Name = GetFuncID_from Funcs 0 Name"

text \<open>
  \<^verbatim>\<open>std::string\<close> keys are ordered lexicographically on their bytes read as unsigned
  values; a proper prefix comes first.
\<close>

fun string_less :: "string \<Rightarrow> string \<Rightarrow> bool" where
  "string_less [] [] = False"
| "string_less [] (y # ys) = True"
| "string_less (x # xs) [] = False"
| "string_less (x # xs) (y # ys) =
     (if (of_char x :: nat) < of_char y then True
      else if (of_char y :: nat) < of_char x then False
      else string_less xs ys)"

text \<open>\<^verbatim>\<open>VarMap[Name] = id\<close> on the ordered association list.\<close>

fun VarMap_assign :: "string \<Rightarrow> int \<Rightarrow> (string \<times> int) list \<Rightarrow> (string \<times> int) list" where
  "VarMap_assign Name i [] = [(Name, i)]"
| "VarMap_assign Name i (e # m) =
     (if string_less Name (fst e) then (Name, i) # e # m
      else if string_less (fst e) Name then e # VarMap_assign Name i m
      else (fst e, i) # m)"

definition GetVarID :: "string \<Rightarrow> round \<Rightarrow> int \<times> round" where
  "GetVarID Name st =
     (case map_of (VarMap st) Name of
        Some i \<Rightarrow> (i, st)
      | None \<Rightarrow> (VarMaxID st,
                 st\<lparr>VarMap := VarMap_assign Name (VarMaxID st) (VarMap st),
                    Vars := Vars st @ [Name],
                    VarMaxID := VarMaxID st + 1\<rparr>))"

definition StrToIntEx :: "string \<Rightarrow> int" where
  "StrToIntEx s = foldl (\<lambda>Value c. Value * 10 + (int (of_char c) - int (of_char CHR ''0''))) 0 s"

text \<open>
  The iterators \<^verbatim>\<open>Begin\<close> and \<^verbatim>\<open>Idx\<close> are positions in the line; \<^verbatim>\<open>[Begin, Idx)\<close> is the
  run handed to \<^verbatim>\<open>ParseToken\<close>. Reading the position one past the last character of a
  \<^verbatim>\<open>std::string\<close> gives the terminating zero.
\<close>

definition char_at :: "string \<Rightarrow> nat \<Rightarrow> char" where
  "char_at Str i = (if i < length Str then Str ! i else CHR 0x00)"

definition run :: "string \<Rightarrow> nat \<Rightarrow> nat \<Rightarrow> string" where
  "run Str Begin Idx = take (Idx - Begin) (drop Begin Str)"

definition ParseToken :: "TokCond \<Rightarrow> string \<Rightarrow> nat \<Rightarrow> nat \<Rightarrow> Token list \<Rightarrow> round \<Rightarrow> Token list \<times> round" where
  "ParseToken Type Str Begin Idx Toks st =
     (case Type of
        TC_Null \<Rightarrow> (Toks, st)
      | TC_Operator \<Rightarrow> (Toks @ [Opr (char_at Str Begin)], st)
      | TC_Number \<Rightarrow> (Toks @ [Token Int_Ty (StrToIntEx (run Str Begin Idx))], st)
      | TC_Symbol \<Rightarrow>
          (let p = run Str Begin Idx; i = GetFuncID p
           in if i = - 1
              then (let (v, st') = GetVarID p st in (Toks @ [Token Variable v], st'))
              else (Toks @ [Token Function i], st)))"

function GenerateTokens_loop ::
  "string \<Rightarrow> nat \<Rightarrow> nat \<Rightarrow> TokCond \<Rightarrow> Token list \<Rightarrow> round \<Rightarrow> nat \<times> TokCond \<times> Token list \<times> round" where
  "GenerateTokens_loop Str Begin Idx LastType Toks st =
     (if Idx < length Str
      then (let CurType = Judge (Str ! Idx)
            in if LastType = CurType
               then (if CurType = TC_Operator
                     then GenerateTokens_loop Str Idx (Idx + 1) LastType
                            (Toks @ [Opr (char_at Str Begin)]) st
                     else GenerateTokens_loop Str Begin (Idx + 1) LastType Toks st)
               else (let (Toks', st') = ParseToken LastType Str Begin Idx Toks st
                     in GenerateTokens_loop Str Idx (Idx + 1) CurType Toks' st'))
      else (Begin, LastType, Toks, st))"
  by pat_completeness auto
termination
  by (relation "measure (\<lambda>(Str, Begin, Idx, LastType, Toks, st). length Str - Idx)") auto

declare GenerateTokens_loop.simps [simp del]

definition GenerateTokens :: "string \<Rightarrow> Token list \<Rightarrow> round \<Rightarrow> Token list \<times> round" where
  "GenerateTokens Str Toks st =
     (let (Begin, LastType, Toks', st') = GenerateTokens_loop Str 0 0 TC_Null Toks st
      in ParseToken LastType Str Begin (length Str) Toks' st')"

section \<open>Expression tree construction\<close>

definition IsLBK :: "Token \<Rightarrow> bool" where
  "IsLBK T = (Ty T = Operator \<and> ID T = of_char CHR ''('')"

definition IsRBK :: "Token \<Rightarrow> bool" where
  "IsRBK T = (Ty T = Operator \<and> ID T = of_char CHR '')'')"

definition IsCOM :: "Token \<Rightarrow> bool" where
  "IsCOM T = (Ty T = Operator \<and> ID T = of_char CHR '','')"

definition IsIgnoredSymbol :: "Token \<Rightarrow> bool" where
  "IsIgnoredSymbol T = (Ty T = Operator
     \<and> (ID T = of_char CHR ''('' \<or> ID T = of_char CHR '')'' \<or> ID T = of_char CHR '',''))"

definition IsSUB :: "Token \<Rightarrow> bool" where
  "IsSUB T = (Ty T = Operator \<and> ID T = of_char CHR ''-'')"

definition IsPOW :: "Token \<Rightarrow> bool" where
  "IsPOW T = ((Ty T = Operator \<and> ID T = of_char CHR ''^'') \<or> (Ty T = Function \<and> ID T = FUNC_pow))"

text \<open>
  Dereferencing a null pointer is outside the model. A function that the source only
  ever applies to a node has an equation for \<open>Null\<close> as well, because HOL functions are
  total; that equation stands for no behaviour of the program.
\<close>

fun OprLevel :: "ExprNode \<Rightarrow> bool \<Rightarrow> int" where
  "OprLevel Null ConsiderUsedNode = 0"
| "OprLevel (Node v l r) ConsiderUsedNode =
     (if Ty v = Operator
      then (if l \<noteq> Null \<and> \<not> ConsiderUsedNode then 0
            else if ID v = of_char CHR ''+'' \<or> ID v = of_char CHR ''-'' then 1
            else if ID v = of_char CHR ''*'' \<or> ID v = of_char CHR ''/'' then 2
            else if ID v = of_char CHR ''^'' then 3
            else 114514)
      else 0)"

text \<open>\<^verbatim>\<open>CreateNode\<close> in its three forms, and the macro \<^verbatim>\<open>Const\<close>.\<close>

definition CreateNode0 :: ExprNode where
  "CreateNode0 = Node (Token Int_Ty 0) Null Null"

definition CreateNode1 :: "Token \<Rightarrow> ExprNode" where
  "CreateNode1 T = Node T Null Null"

definition CreateNode3 :: "Token \<Rightarrow> ExprNode \<Rightarrow> ExprNode \<Rightarrow> ExprNode" where
  "CreateNode3 T Op1 Op2 = Node T Op1 Op2"

definition Const :: "int \<Rightarrow> ExprNode" where
  "Const x = CreateNode1 (Token Int_Ty x)"

definition TriggerMerge :: "ExprNode \<Rightarrow> int \<Rightarrow> bool" where
  "TriggerMerge Back CurLevel =
     (if Ty (V Back) = Operator \<and> (ID (V Back) = of_char CHR ''-'' \<or> ID (V Back) = of_char CHR ''/'')
      then OprLevel Back False \<ge> CurLevel
      else OprLevel Back False > CurLevel)"

text \<open>
  \<^verbatim>\<open>MergeTop\<close> on the two stacks \<^verbatim>\<open>OprV\<close> and \<^verbatim>\<open>ExprV\<close> (vectors: the back is the last
  element). It returns whether it succeeded, the stacks and the state.
\<close>

function MergeTop ::
  "int \<Rightarrow> ExprNode list \<Rightarrow> ExprNode list \<Rightarrow> round \<Rightarrow> bool \<times> ExprNode list \<times> ExprNode list \<times> round" where
  "MergeTop CurLevel OprV ExprV st =
     (if OprV \<noteq> [] \<and> TriggerMerge (last OprV) CurLevel
      then (if length ExprV < 2
            then (False, OprV, ExprV,
                  (puts ''Syntax Error: missing operand.'' st)\<lparr>FailedToParse := True\<rparr>)
            else MergeTop CurLevel (butlast OprV)
                   (butlast (butlast ExprV)
                    @ [Node (V (last OprV)) (ExprV ! (length ExprV - 2)) (last ExprV)])
                   st)
      else (True, OprV, ExprV, st))"
  by pat_completeness auto
termination
  by (relation "measure (\<lambda>(CurLevel, OprV, ExprV, st). length OprV)") auto

declare MergeTop.simps [simp del]

text \<open>
  The loop of \<^verbatim>\<open>CreateTree\<close> over the cells of the range. \<open>None\<close> is the early
  \<^verbatim>\<open>return CreateNode()\<close> after a failed merge.
\<close>

fun CreateTree_scan ::
  "ExprNode list \<Rightarrow> ExprNode list \<Rightarrow> ExprNode list \<Rightarrow> bool \<Rightarrow> round
     \<Rightarrow> (ExprNode list \<times> ExprNode list) option \<times> round" where
  "CreateTree_scan [] OprV ExprV LastHasLevel st = (Some (OprV, ExprV), st)"
| "CreateTree_scan (pNode # rest) OprV ExprV LastHasLevel st =
     (if IsIgnoredSymbol (V pNode) then CreateTree_scan rest OprV ExprV LastHasLevel st
      else (let Level = OprLevel pNode False
            in if Level = 0
               then (if \<not> LastHasLevel
                     then (case MergeTop 2 OprV ExprV st of
                             (ok, OprV', ExprV', st') \<Rightarrow>
                               if \<not> ok then (None, st')
                               else CreateTree_scan rest (OprV' @ [CreateNode1 MUL])
                                      (ExprV' @ [pNode]) (Level \<noteq> 0) st')
                     else CreateTree_scan rest OprV (ExprV @ [pNode]) (Level \<noteq> 0) st)
               else (case MergeTop Level OprV ExprV st of
                       (ok, OprV', ExprV', st') \<Rightarrow>
                         if \<not> ok then (None, st')
                         else CreateTree_scan rest (OprV' @ [pNode]) ExprV' (Level \<noteq> 0) st')))"

text \<open>
  \<^verbatim>\<open>while (!OprV.empty()) if (!MergeTop(0)) return CreateNode();\<close> The loop has no
  bound of its own, so not leaving it is the value \<open>None\<close>.
\<close>

partial_function (option) MergeRemaining ::
  "ExprNode list \<Rightarrow> ExprNode list \<Rightarrow> round \<Rightarrow> (bool \<times> ExprNode list \<times> round) option" where
  "MergeRemaining OprV ExprV st =
     (if OprV \<noteq> []
      then (case MergeTop 0 OprV ExprV st of
              (ok, OprV', ExprV', st') \<Rightarrow>
                if \<not> ok then Some (False, ExprV', st')
                else MergeRemaining OprV' ExprV' st')
      else Some (True, ExprV, st))"

declare MergeRemaining.simps [code]

text \<open>
  \<^verbatim>\<open>CreateTree(Begin, End)\<close> on the list of cells of \<^verbatim>\<open>[Begin, End)\<close>. An empty range
  gives a fresh node, whose token is the integer 0. A leading \<open>-\<close> gets the integer 0
  put in front of it. Reading \<^verbatim>\<open>ExprV[0]\<close> of an empty vector has no value.
\<close>

definition CreateTree :: "ExprNode list \<Rightarrow> round \<Rightarrow> (ExprNode \<times> round) option" where
  "CreateTree cells st =
     (case cells of
        [] \<Rightarrow> Some (CreateNode0, st)
      | Begin # rest \<Rightarrow>
          (let cells' = (if OprLevel Begin False \<noteq> 0 \<and> IsSUB (V Begin)
                         then CreateNode1 (Token Int_Ty 0) # cells else cells)
           in case CreateTree_scan cells' [] [] True st of
                (None, st') \<Rightarrow> Some (CreateNode0, st')
              | (Some (OprV, ExprV), st') \<Rightarrow>
                  (case MergeRemaining OprV ExprV st' of
                     None \<Rightarrow> None
                   | Some (ok, ExprV', st'') \<Rightarrow>
                       if \<not> ok then Some (CreateNode0, st'')
                       else (case ExprV' of [] \<Rightarrow> None | e # es \<Rightarrow> Some (e, st'')))))"

text \<open>\<^verbatim>\<open>printf("%d", i)\<close>.\<close>

function decimal :: "nat \<Rightarrow> string" where
  "decimal n = (if n < 10 then [char_of (48 + n)]
                else decimal (n div 10) @ [char_of (48 + n mod 10)])"
  by pat_completeness auto
termination
  by (relation "measure (\<lambda>n. n)") auto

declare decimal.simps [simp del]

definition printf_d :: "int \<Rightarrow> string" where
  "printf_d i = (if i < 0 then CHR ''-'' # decimal (nat (- i)) else decimal (nat i))"

text \<open>
  The entries of \<^verbatim>\<open>Funcs\<close> are read at the id of a function token; the lexer only
  makes ids of the table. An id outside the table has no entry to read.
\<close>

definition Func_Name :: "int \<Rightarrow> string" where
  "Func_Name i = (if 0 \<le> i \<and> i < NFuncs then fst (Funcs ! nat i) else [])"

definition Func_NParam :: "int \<Rightarrow> int" where
  "Func_NParam i = (if 0 \<le> i \<and> i < NFuncs then snd (Funcs ! nat i) else 0)"

fun CheckArgument :: "ExprNode \<Rightarrow> round \<Rightarrow> bool \<times> round" where
  "CheckArgument Null st = (True, st)"
| "CheckArgument (Node v l r) st =
     (if Ty v = Function
      then (let NArg = (if l \<noteq> Null then 1 else 0) + (if r \<noteq> Null then 1 else (0::int))
            in if NArg \<noteq> Func_NParam (ID v)
               then (False, puts (''Syntax Error: Function '' @ Func_Name (ID v) @ '' expected ''
                                  @ printf_d (Func_NParam (ID v)) @ '' Arguments, Found ''
                                  @ printf_d NArg @ '' Arguments'') st)
               else (True, st))
      else (case CheckArgument l st of
              (ok1, st1) \<Rightarrow> (case CheckArgument r st1 of
                 (ok2, st2) \<Rightarrow> (ok1 \<and> ok2, st2))))"

text \<open>
  The bracket pass of \<^verbatim>\<open>Expr::Expr(const std::vector<Token>&)\<close>. The linked list from
  \<^verbatim>\<open>M.Next\<close> to \<^verbatim>\<open>pCur\<close> is the list \<open>cells\<close>; a cell is named by its position, and the
  cell before position 0 is the sentinel \<^verbatim>\<open>M\<close>, a default-constructed node. A
  \<^verbatim>\<open>BracketPtr\<close> holds the positions of its \<open>(\<close> and, if any, of its comma.
\<close>

record BracketPtr =
  Left :: nat
  Comma :: "nat option"

definition M_sentinel :: ExprNode where
  "M_sentinel = Node (Token Int_Ty 0) Null Null"

definition Prev_cell :: "ExprNode list \<Rightarrow> nat \<Rightarrow> ExprNode" where
  "Prev_cell cells i = (if i = 0 then M_sentinel else cells ! (i - 1))"

definition between :: "ExprNode list \<Rightarrow> nat \<Rightarrow> nat \<Rightarrow> ExprNode list" where
  "between cells a b = take (b - a) (drop a cells)"

definition dq :: char where
  "dq = CHR 0x22"

definition fail_parse :: "string \<Rightarrow> round \<Rightarrow> round" where
  "fail_parse msg st = (puts msg st)\<lparr>FailedToParse := True\<rparr>"

text \<open>
  The result is \<open>None\<close> when a \<^verbatim>\<open>CreateTree\<close> does not return; otherwise the state,
  and the cells and open brackets unless the constructor has returned early.
\<close>

fun Expr_scan ::
  "Token list \<Rightarrow> ExprNode list \<Rightarrow> BracketPtr list \<Rightarrow> round
     \<Rightarrow> ((ExprNode list \<times> BracketPtr list) option \<times> round) option" where
  "Expr_scan [] cells Brackets st = Some (Some (cells, Brackets), st)"
| "Expr_scan (T # Toks) cells Brackets st =
     (let cells1 = cells @ [CreateNode1 T]; pCur = length cells
      in if IsLBK T
         then Expr_scan Toks cells1 (Brackets @ [\<lparr>Left = pCur, Comma = None\<rparr>]) st
         else if IsCOM T
         then (if Brackets \<noteq> []
               then (if Comma (last Brackets) \<noteq> None
                     then Some (None, fail_parse ''Syntax Error: Too many arguments.'' st)
                     else Expr_scan Toks cells1
                            (butlast Brackets @ [(last Brackets)\<lparr>Comma := Some pCur\<rparr>]) st)
               else Some (None, fail_parse
                      (''Syntax Error: '' @ [dq] @ '','' @ [dq] @ ''is not in a '' @ [dq] @ ''()'' @ [dq] @ ''.'')
                      st))
         else if IsRBK T
         then (if Brackets = []
               then Some (None, fail_parse (''Syntax Error: '' @ [dq] @ '')'' @ [dq] @ ''is lonely.'') st)
               else (let i = Left (last Brackets); pTok = Prev_cell cells1 i
                     in case Comma (last Brackets) of
                          Some pCom \<Rightarrow>
                            (case CreateTree (between cells1 (i + 1) pCom) st of
                               None \<Rightarrow> None
                             | Some (T1, st1) \<Rightarrow>
                                 (case CreateTree (between cells1 (pCom + 1) pCur) st1 of
                                    None \<Rightarrow> None
                                  | Some (T2, st2) \<Rightarrow>
                                      if FailedToParse st2 then Some (None, st2)
                                      else if Ty (V pTok) = Function
                                      then Expr_scan Toks (take (i - 1) cells1 @ [Node (V pTok) T1 T2])
                                             (butlast Brackets) st2
                                      else Some (None, fail_parse
                                             (''Syntax Error: '' @ [dq] @ '','' @ [dq] @ '' is only for functions.'')
                                             st2)))
                        | None \<Rightarrow>
                            (case CreateTree (between cells1 (i + 1) pCur) st of
                               None \<Rightarrow> None
                             | Some (T1, st1) \<Rightarrow>
                                 if FailedToParse st1 then Some (None, st1)
                                 else if Ty (V pTok) = Function
                                 then Expr_scan Toks (take (i - 1) cells1 @ [Node (V pTok) T1 (R pTok)])
                                        (butlast Brackets) st1
                                 else Expr_scan Toks (take i cells1 @ [T1]) (butlast Brackets) st1)))
         else Expr_scan Toks cells1 Brackets st)"

text \<open>
  The constructor up to and including \<^verbatim>\<open>CheckArgument\<close>: the root pointer (null after
  an early return in the bracket pass), whether the constructor goes on to
  \<^verbatim>\<open>Simplify(Root)\<close>, and the state. A failure of the last \<^verbatim>\<open>CreateTree\<close> is not
  tested before \<^verbatim>\<open>CheckArgument\<close>.
\<close>

definition Expr_build :: "Token list \<Rightarrow> round \<Rightarrow> (ExprNode \<times> bool \<times> round) option" where
  "Expr_build Toks st =
     (case Expr_scan Toks [] [] (st\<lparr>DividedbyZero := False\<rparr>) of
        None \<Rightarrow> None
      | Some (None, st1) \<Rightarrow> Some (Null, False, st1)
      | Some (Some (cells, Brackets), st1) \<Rightarrow>
          if Brackets \<noteq> []
          then Some (Null, False, fail_parse
                 (''Syntax Error: expected '' @ [dq] @ '')'' @ [dq] @ ''for a lonely '' @ [dq] @ ''('' @ [dq] @ '' qwq. '')
                 st1)
          else (case CreateTree cells st1 of
                  None \<Rightarrow> None
                | Some (Root, st2) \<Rightarrow>
                    (case CheckArgument Root st2 of
                       (ok, st3) \<Rightarrow>
                         if \<not> ok then Some (Root, False, st3\<lparr>FailedToParse := True\<rparr>)
                         else Some (Root, True, st3))))"

section \<open>Differentiation\<close>

text \<open>
  The node-building macros \<^verbatim>\<open>Add\<close>, \<^verbatim>\<open>Sub\<close>, \<^verbatim>\<open>Mul\<close>, \<^verbatim>\<open>Div\<close>, \<^verbatim>\<open>Pwr\<close> and the
  function helpers \<^verbatim>\<open>Ln\<close>, \<^verbatim>\<open>Sin\<close>, ... (one operand, the right one null).
\<close>

definition Add :: "ExprNode \<Rightarrow> ExprNode \<Rightarrow> ExprNode" where "Add Op1 Op2 = CreateNode3 ADD Op1 Op2"
definition Sub :: "ExprNode \<Rightarrow> ExprNode \<Rightarrow> ExprNode" where "Sub Op1 Op2 = CreateNode3 SUB Op1 Op2"
definition Mul :: "ExprNode \<Rightarrow> ExprNode \<Rightarrow> ExprNode" where "Mul Op1 Op2 = CreateNode3 MUL Op1 Op2"
definition Div :: "ExprNode \<Rightarrow> ExprNode \<Rightarrow> ExprNode" where "Div Op1 Op2 = CreateNode3 DIV Op1 Op2"
definition Pwr :: "ExprNode \<Rightarrow> ExprNode \<Rightarrow> ExprNode" where "Pwr Op1 Op2 = CreateNode3 POW Op1 Op2"

definition Ln :: "ExprNode \<Rightarrow> ExprNode" where "Ln Op1 = CreateNode3 (Token Function FUNC_ln) Op1 Null"
definition Sin :: "ExprNode \<Rightarrow> ExprNode" where "Sin Op1 = CreateNode3 (Token Function FUNC_sin) Op1 Null"
definition Cos :: "ExprNode \<Rightarrow> ExprNode" where "Cos Op1 = CreateNode3 (Token Function FUNC_cos) Op1 Null"
definition Exp :: "ExprNode \<Rightarrow> ExprNode" where "Exp Op1 = CreateNode3 (Token Function FUNC_exp) Op1 Null"
definition Sinh :: "ExprNode \<Rightarrow> ExprNode" where "Sinh Op1 = CreateNode3 (Token Function FUNC_sinh) Op1 Null"
definition Cosh :: "ExprNode \<Rightarrow> ExprNode" where "Cosh Op1 = CreateNode3 (Token Function FUNC_cosh) Op1 Null"

fun Duplicate :: "ExprNode \<Rightarrow> ExprNode" where
  "Duplicate Null = Null"
| "Duplicate (Node v l r) =
     Node v (if l \<noteq> Null then Duplicate l else Null) (if r \<noteq> Null then Duplicate r else Null)"

text \<open>
  The macros \<^verbatim>\<open>F\<close> and \<^verbatim>\<open>G\<close> are \<^verbatim>\<open>Op->Duplicate()\<close>. Calling a member function through
  a null operand does not give a node: the value is \<open>None\<close>. The same holds for the
  macros \<^verbatim>\<open>DF\<close> and \<^verbatim>\<open>DG\<close>, \<^verbatim>\<open>Op->Partial(DX)\<close>, which the rules below receive as
  their first two arguments.
\<close>

definition Dup :: "ExprNode \<Rightarrow> ExprNode option" where
  "Dup Op = (if Op = Null then None else Some (Duplicate Op))"

definition DX_add :: "ExprNode option \<Rightarrow> ExprNode option \<Rightarrow> ExprNode \<Rightarrow> ExprNode \<Rightarrow> ExprNode option" where
  "DX_add DF DG Op1 Op2 = do { df \<leftarrow> DF; dg \<leftarrow> DG; Some (Add df dg) }"

definition DX_sub :: "ExprNode option \<Rightarrow> ExprNode option \<Rightarrow> ExprNode \<Rightarrow> ExprNode \<Rightarrow> ExprNode option" where
  "DX_sub DF DG Op1 Op2 = do { df \<leftarrow> DF; dg \<leftarrow> DG; Some (Sub df dg) }"

definition DX_mul :: "ExprNode option \<Rightarrow> ExprNode option \<Rightarrow> ExprNode \<Rightarrow> ExprNode \<Rightarrow> ExprNode option" where
  "DX_mul DF DG Op1 Op2 =
     do { df \<leftarrow> DF; g \<leftarrow> Dup Op2; f \<leftarrow> Dup Op1; dg \<leftarrow> DG; Some (Add (Mul df g) (Mul f dg)) }"

definition DX_div :: "ExprNode option \<Rightarrow> ExprNode option \<Rightarrow> ExprNode \<Rightarrow> ExprNode \<Rightarrow> ExprNode option" where
  "DX_div DF DG Op1 Op2 =
     do { df \<leftarrow> DF; g \<leftarrow> Dup Op2; f \<leftarrow> Dup Op1; dg \<leftarrow> DG; g' \<leftarrow> Dup Op2;
          Some (Div (Sub (Mul df g) (Mul f dg)) (Pwr g' (Const 2))) }"

definition DX_ln :: "ExprNode option \<Rightarrow> ExprNode option \<Rightarrow> ExprNode \<Rightarrow> ExprNode \<Rightarrow> ExprNode option" where
  "DX_ln DF DG Op1 Op2 = do { df \<leftarrow> DF; f \<leftarrow> Dup Op1; Some (Div df f) }"

text \<open>
  \<^verbatim>\<open>DX_log\<close> is \<^verbatim>\<open>DX_div(Ln(Op2), Ln(Op1), DX)\<close>. There \<^verbatim>\<open>DF\<close> is
  \<^verbatim>\<open>Ln(Op2)->Partial(DX)\<close>, which \<^verbatim>\<open>Partial\<close> dispatches to \<^verbatim>\<open>DX_ln(Op2, nullptr, DX)\<close>,
  whose own \<^verbatim>\<open>DF\<close> is the \<^verbatim>\<open>DG\<close> of the \<open>log\<close> node; likewise for \<^verbatim>\<open>Ln(Op1)\<close>.
\<close>

definition DX_log :: "ExprNode option \<Rightarrow> ExprNode option \<Rightarrow> ExprNode \<Rightarrow> ExprNode \<Rightarrow> ExprNode option" where
  "DX_log DF DG Op1 Op2 = DX_div (DX_ln DG None Op2 Null) (DX_ln DF None Op1 Null) (Ln Op2) (Ln Op1)"

definition DX_cos :: "ExprNode option \<Rightarrow> ExprNode option \<Rightarrow> ExprNode \<Rightarrow> ExprNode \<Rightarrow> ExprNode option" where
  "DX_cos DF DG Op1 Op2 = do { df \<leftarrow> DF; f \<leftarrow> Dup Op1; Some (Sub (Const 0) (Mul df (Sin f))) }"

definition DX_sin :: "ExprNode option \<Rightarrow> ExprNode option \<Rightarrow> ExprNode \<Rightarrow> ExprNode \<Rightarrow> ExprNode option" where
  "DX_sin DF DG Op1 Op2 = do { df \<leftarrow> DF; f \<leftarrow> Dup Op1; Some (Mul df (Cos f)) }"

definition DX_tan :: "ExprNode option \<Rightarrow> ExprNode option \<Rightarrow> ExprNode \<Rightarrow> ExprNode \<Rightarrow> ExprNode option" where
  "DX_tan DF DG Op1 Op2 = do { df \<leftarrow> DF; f \<leftarrow> Dup Op1; Some (Div df (Pwr (Cos f) (Const 2))) }"

definition DX_exp :: "ExprNode option \<Rightarrow> ExprNode option \<Rightarrow> ExprNode \<Rightarrow> ExprNode \<Rightarrow> ExprNode option" where
  "DX_exp DF DG Op1 Op2 = do { df \<leftarrow> DF; f \<leftarrow> Dup Op1; Some (Mul df (Exp f)) }"

text \<open>
  \<^verbatim>\<open>DX_pow\<close> is \<^verbatim>\<open>DX_exp(Op2 Mul Ln(Op1), nullptr, DX)\<close>. There \<^verbatim>\<open>DF\<close> is the derivative
  of the product node, \<^verbatim>\<open>DX_mul(Op2, Ln(Op1), DX)\<close>, in which the derivative of
  \<^verbatim>\<open>Ln(Op1)\<close> is \<^verbatim>\<open>DX_ln(Op1, nullptr, DX)\<close>.
\<close>

definition DX_pow :: "ExprNode option \<Rightarrow> ExprNode option \<Rightarrow> ExprNode \<Rightarrow> ExprNode \<Rightarrow> ExprNode option" where
  "DX_pow DF DG Op1 Op2 =
     DX_exp (DX_mul DG (DX_ln DF None Op1 Null) Op2 (Ln Op1)) None (Mul Op2 (Ln Op1)) Null"

definition DX_sinh :: "ExprNode option \<Rightarrow> ExprNode option \<Rightarrow> ExprNode \<Rightarrow> ExprNode \<Rightarrow> ExprNode option" where
  "DX_sinh DF DG Op1 Op2 = do { df \<leftarrow> DF; f \<leftarrow> Dup Op1; Some (Mul df (Cosh f)) }"

definition DX_cosh :: "ExprNode option \<Rightarrow> ExprNode option \<Rightarrow> ExprNode \<Rightarrow> ExprNode \<Rightarrow> ExprNode option" where
  "DX_cosh DF DG Op1 Op2 = do { df \<leftarrow> DF; f \<leftarrow> Dup Op1; Some (Mul df (Sinh f)) }"

text \<open>The column \<^verbatim>\<open>Derivative\<close> of \<^verbatim>\<open>Funcs\<close>; an id outside the table has no entry.\<close>

definition Derivative ::
  "int \<Rightarrow> ExprNode option \<Rightarrow> ExprNode option \<Rightarrow> ExprNode \<Rightarrow> ExprNode \<Rightarrow> ExprNode option" where
  "Derivative i DF DG Op1 Op2 =
     (if i = FUNC_ln then DX_ln DF DG Op1 Op2
      else if i = FUNC_log then DX_log DF DG Op1 Op2
      else if i = FUNC_cos then DX_cos DF DG Op1 Op2
      else if i = FUNC_sin then DX_sin DF DG Op1 Op2
      else if i = FUNC_tan then DX_tan DF DG Op1 Op2
      else if i = FUNC_pow then DX_pow DF DG Op1 Op2
      else if i = FUNC_exp then DX_exp DF DG Op1 Op2
      else if i = FUNC_sinh then DX_sinh DF DG Op1 Op2
      else if i = FUNC_cosh then DX_cosh DF DG Op1 Op2
      else None)"

text \<open>\<^verbatim>\<open>ExprNode::PartialOpr\<close>, with the derivatives of the two operands passed in.\<close>

definition PartialOpr ::
  "Token \<Rightarrow> ExprNode option \<Rightarrow> ExprNode option \<Rightarrow> ExprNode \<Rightarrow> ExprNode \<Rightarrow> ExprNode option" where
  "PartialOpr v DF DG Op1 Op2 =
     (if ID v = of_char CHR ''+'' then DX_add DF DG Op1 Op2
      else if ID v = of_char CHR ''-'' then DX_sub DF DG Op1 Op2
      else if ID v = of_char CHR ''*'' then DX_mul DF DG Op1 Op2
      else if ID v = of_char CHR ''/'' then DX_div DF DG Op1 Op2
      else if ID v = of_char CHR ''^'' then DX_pow DF DG Op1 Op2
      else Some (Duplicate (Node v Op1 Op2)))"

text \<open>\<^verbatim>\<open>ExprNode::Partial\<close>.\<close>

fun Partial :: "ExprNode \<Rightarrow> int \<Rightarrow> ExprNode option" where
  "Partial Null DX = None"
| "Partial (Node v l r) DX =
     (case Ty v of
        Int_Ty \<Rightarrow> Some (Const 0)
      | Variable \<Rightarrow> Some (if ID v = DX then Const 1 else Const 0)
      | Operator \<Rightarrow> PartialOpr v (Partial l DX) (Partial r DX) l r
      | Function \<Rightarrow> Derivative (ID v) (Partial l DX) (Partial r DX) l r)"

section \<open>Simplifier\<close>

text \<open>
  The rewriting that a pass does at an operator or function node is not spelled out in
  this development. It is taken as a parameter: a step receives the node, whose
  operands the pass has already visited, and the set \<^verbatim>\<open>Extracted\<close>, and gives the
  flag \<^verbatim>\<open>Changed\<close>, the node that replaces it, the new set, and how many times a
  division by zero was detected on the way (in \<^verbatim>\<open>Fraction::Simplify\<close> or in
  \<^verbatim>\<open>FinalFold_GCDPoly\<close>), each detection making the report \<open>Divided_by_0\<close>. A step is a
  total function: it is assumed to return. What the passes do at the leaves, how they
  walk the tree and how \<^verbatim>\<open>Simplify\<close> and \<^verbatim>\<open>FinalFold\<close> drive them is modelled from the
  source. The node arena and its free list are not modelled: a tree is a value.
\<close>

type_synonym step = "ExprNode \<Rightarrow> ExprHash set \<Rightarrow> bool \<times> ExprNode \<times> ExprHash set \<times> nat"

record residual =
  Rotate_at :: step
  S01_at :: step
  SpecialFuncs_at :: step
  Neg_at :: step
  TopNeg_at :: step
  FoldConst_at :: step
  Polynomial_at :: step
  FinalFold_Neg_at :: step
  GCDPoly_at :: step

definition apply_step :: "step \<Rightarrow> ExprNode \<Rightarrow> round \<Rightarrow> bool \<times> ExprNode \<times> round" where
  "apply_step f pNode st =
     (case f pNode (Extracted st) of
        (Changed, pNode', E, k) \<Rightarrow> (Changed, pNode', (Divided_by_0 ^^ k) (st\<lparr>Extracted := E\<rparr>)))"

text \<open>
  \<^verbatim>\<open>Simplify_Rotate\<close>, \<^verbatim>\<open>Simplify_01\<close>, \<^verbatim>\<open>Simplify_SpecialFuncs\<close>, \<^verbatim>\<open>Simplify_Neg\<close> and
  \<^verbatim>\<open>FinalFold_Neg\<close> have one shape: return false on a null pointer; otherwise visit
  the left operand, then the right one, then rewrite at the node itself, where every
  rule asks for an operator or a function token.
\<close>

fun walk :: "step \<Rightarrow> ExprNode \<Rightarrow> round \<Rightarrow> bool \<times> ExprNode \<times> round" where
  "walk f Null st = (False, Null, st)"
| "walk f (Node v l r) st =
     (case walk f l st of
        (c1, l', st1) \<Rightarrow>
          (case walk f r st1 of
             (c2, r', st2) \<Rightarrow>
               if Ty v = Operator \<or> Ty v = Function
               then (case apply_step f (Node v l' r') st2 of
                       (c3, pNode', st3) \<Rightarrow> (c1 \<or> c2 \<or> c3, pNode', st3))
               else (c1 \<or> c2, Node v l' r', st2)))"

definition Simplify_Rotate :: "residual \<Rightarrow> ExprNode \<Rightarrow> round \<Rightarrow> bool \<times> ExprNode \<times> round" where
  "Simplify_Rotate Rs = walk (Rotate_at Rs)"

definition Simplify_01 :: "residual \<Rightarrow> ExprNode \<Rightarrow> round \<Rightarrow> bool \<times> ExprNode \<times> round" where
  "Simplify_01 Rs = walk (S01_at Rs)"

definition Simplify_SpecialFuncs :: "residual \<Rightarrow> ExprNode \<Rightarrow> round \<Rightarrow> bool \<times> ExprNode \<times> round" where
  "Simplify_SpecialFuncs Rs = walk (SpecialFuncs_at Rs)"

definition Simplify_Neg :: "residual \<Rightarrow> ExprNode \<Rightarrow> round \<Rightarrow> bool \<times> ExprNode \<times> round" where
  "Simplify_Neg Rs = walk (Neg_at Rs)"

definition FinalFold_Neg :: "residual \<Rightarrow> ExprNode \<Rightarrow> round \<Rightarrow> bool \<times> ExprNode \<times> round" where
  "FinalFold_Neg Rs = walk (FinalFold_Neg_at Rs)"

definition Simplify_All01 :: "residual \<Rightarrow> ExprNode \<Rightarrow> round \<Rightarrow> bool \<times> ExprNode \<times> round" where
  "Simplify_All01 Rs pNode st =
     (case Simplify_Rotate Rs pNode st of
        (c1, p1, st1) \<Rightarrow> (case Simplify_01 Rs p1 st1 of (c2, p2, st2) \<Rightarrow> (c1 \<or> c2, p2, st2)))"

text \<open>\<^verbatim>\<open>Simplify_FoldConst\<close> rewrites at operator nodes only.\<close>

fun Simplify_FoldConst :: "residual \<Rightarrow> ExprNode \<Rightarrow> round \<Rightarrow> bool \<times> ExprNode \<times> round" where
  "Simplify_FoldConst Rs Null st = (False, Null, st)"
| "Simplify_FoldConst Rs (Node v l r) st =
     (case Simplify_FoldConst Rs l st of
        (c1, l', st1) \<Rightarrow>
          (case Simplify_FoldConst Rs r st1 of
             (c2, r', st2) \<Rightarrow>
               if Ty v = Operator
               then (case apply_step (FoldConst_at Rs) (Node v l' r') st2 of
                       (c3, pNode', st3) \<Rightarrow> (c1 \<or> c2 \<or> c3, pNode', st3))
               else (c1 \<or> c2, Node v l' r', st2)))"

text \<open>\<^verbatim>\<open>Simplify_TopNeg\<close> looks at the root only, and only if its token is \<open>*\<close>.\<close>

fun Simplify_TopNeg :: "residual \<Rightarrow> ExprNode \<Rightarrow> round \<Rightarrow> bool \<times> ExprNode \<times> round" where
  "Simplify_TopNeg Rs Null st = (False, Null, st)"
| "Simplify_TopNeg Rs (Node v l r) st =
     (if v = MUL then apply_step (TopNeg_at Rs) (Node v l r) st else (False, Node v l r, st))"

text \<open>
  \<^verbatim>\<open>Simplify_Polynomial\<close>. When the token of the root is an integer, the root is the
  only term, \<^verbatim>\<open>IsConst\<close> holds of it, and each of the five stages skips it.
\<close>

fun Simplify_Polynomial :: "residual \<Rightarrow> ExprNode \<Rightarrow> round \<Rightarrow> bool \<times> ExprNode \<times> round" where
  "Simplify_Polynomial Rs Null st = (False, Null, st)"
| "Simplify_Polynomial Rs (Node v l r) st =
     (if Ty v = Int_Ty then (False, Node v l r, st)
      else apply_step (Polynomial_at Rs) (Node v l r) st)"

text \<open>\<^verbatim>\<open>FinalFold_GCDPoly\<close> returns at once on a null pointer and on the integer 0.\<close>

fun FinalFold_GCDPoly :: "residual \<Rightarrow> ExprNode \<Rightarrow> round \<Rightarrow> ExprNode \<times> round" where
  "FinalFold_GCDPoly Rs Null st = (Null, st)"
| "FinalFold_GCDPoly Rs (Node v l r) st =
     (if v = Token Int_Ty 0 then (Node v l r, st)
      else (case apply_step (GCDPoly_at Rs) (Node v l r) st of (c, pNode', st') \<Rightarrow> (pNode', st')))"

text \<open>
  The loop at the end of \<^verbatim>\<open>FinalFold\<close> runs while a pass reports a change. It has no
  bound of its own: not leaving it is the value \<open>None\<close>.
\<close>

partial_function (option) FinalFold_loop :: "residual \<Rightarrow> ExprNode \<Rightarrow> round \<Rightarrow> (ExprNode \<times> round) option" where
  "FinalFold_loop Rs pNode st =
     (case Simplify_FoldConst Rs pNode st of
        (c1, p1, st1) \<Rightarrow>
          (case Simplify_All01 Rs p1 st1 of
             (c2, p2, st2) \<Rightarrow>
               if c1 \<or> c2 then FinalFold_loop Rs p2 st2 else Some (p2, st2)))"

declare FinalFold_loop.simps [code]

definition FinalFold :: "residual \<Rightarrow> ExprNode \<Rightarrow> round \<Rightarrow> (ExprNode \<times> round) option" where
  "FinalFold Rs pNode st =
     (if pNode = Null then Some (pNode, st)
      else (case FinalFold_GCDPoly Rs pNode st of
              (p1, st1) \<Rightarrow>
                (case FinalFold_Neg Rs p1 st1 of
                   (c2, p2, st2) \<Rightarrow>
                     (case Simplify_TopNeg Rs p2 st2 of
                        (c3, p3, st3) \<Rightarrow> FinalFold_loop Rs p3 st3))))"

text \<open>The six passes of one iteration of the loop of \<^verbatim>\<open>Simplify\<close>.\<close>

definition Simplify_passes :: "residual \<Rightarrow> ExprNode \<Rightarrow> round \<Rightarrow> ExprNode \<times> round" where
  "Simplify_passes Rs pNode st =
     (case Simplify_All01 Rs pNode st of (c1, p1, st1) \<Rightarrow>
      case Simplify_Neg Rs p1 st1 of (c2, p2, st2) \<Rightarrow>
      case Simplify_TopNeg Rs p2 st2 of (c3, p3, st3) \<Rightarrow>
      case Simplify_SpecialFuncs Rs p3 st3 of (c4, p4, st4) \<Rightarrow>
      case Simplify_Polynomial Rs p4 st4 of (c5, p5, st5) \<Rightarrow>
      case Simplify_FoldConst Rs p5 st5 of (c6, p6, st6) \<Rightarrow> (p6, st6))"

text \<open>
  \<^verbatim>\<open>do { ... } while (Occurred.insert(pNode->Hash()).second);\<close> The insertion succeeds
  exactly when the hash is not yet in the set.
\<close>

partial_function (option) Simplify_loop ::
  "residual \<Rightarrow> ExprHash set \<Rightarrow> ExprNode \<Rightarrow> round \<Rightarrow> (ExprNode \<times> round) option" where
  "Simplify_loop Rs Occurred pNode st =
     (case Simplify_passes Rs pNode st of
        (p, st') \<Rightarrow>
          if Hash p \<notin> Occurred then Simplify_loop Rs (insert (Hash p) Occurred) p st'
          else Some (p, st'))"

declare Simplify_loop.simps [code]

definition Simplify :: "residual \<Rightarrow> ExprNode \<Rightarrow> round \<Rightarrow> (ExprNode \<times> round) option" where
  "Simplify Rs pNode st =
     (case Simplify_loop Rs {} pNode st of
        None \<Rightarrow> None
      | Some (p, st') \<Rightarrow> FinalFold Rs p st')"

section \<open>Printer\<close>

text \<open>
  \<^verbatim>\<open>ExprNode::PrintTree\<close>, returning the text it writes and the new value of
  \<^verbatim>\<open>PrintedCount\<close>. The parent is a pointer (\<open>Null\<close> for none). Reading the token of a
  null operand, printing through one, or reading \<^verbatim>\<open>Vars\<close> or \<^verbatim>\<open>Funcs\<close> outside their
  range gives no text: the value is \<open>None\<close>.
\<close>

definition Var_text :: "string list \<Rightarrow> int \<Rightarrow> string option" where
  "Var_text vars i = (if 0 \<le> i \<and> nat i < length vars then Some (vars ! nat i) else None)"

definition Func_text :: "int \<Rightarrow> string option" where
  "Func_text i = (if 0 \<le> i \<and> i < NFuncs then Some (Func_Name i) else None)"

definition NeedsBracket_by_parent :: "ExprNode \<Rightarrow> ExprNode \<Rightarrow> bool \<Rightarrow> bool" where
  "NeedsBracket_by_parent this Parent IsLeft =
     (if Parent \<noteq> Null \<and> Ty (V Parent) = Operator
      then (let PL = OprLevel Parent True; ML = OprLevel this True
            in PL > ML \<or> (PL = ML \<and> PL \<noteq> 0
                 \<and> ((ID (V Parent) = of_char CHR ''-'' \<and> \<not> IsLeft)
                    \<or> (ID (V Parent) = of_char CHR ''/'' \<and> \<not> IsLeft)
                    \<or> (ID (V Parent) = of_char CHR ''^'' \<and> IsLeft))))
      else False)"

fun PrintTree :: "string list \<Rightarrow> ExprNode \<Rightarrow> ExprNode \<Rightarrow> int \<Rightarrow> bool \<Rightarrow> (string \<times> int) option" where
  "PrintTree vars Null Parent PrintedCount IsLeft = None"
| "PrintTree vars (Node v l r) Parent PrintedCount IsLeft =
     (case Ty v of
        Int_Ty \<Rightarrow>
          Some (if ID v \<ge> 0 \<or> Parent = Null then printf_d (ID v)
                else ''('' @ printf_d (ID v) @ '')'', PrintedCount + 1)
      | Variable \<Rightarrow>
          (case Var_text vars (ID v) of
             None \<Rightarrow> None
           | Some s \<Rightarrow> Some (s, PrintedCount + 1))
      | Operator \<Rightarrow>
          (if l = Null then None
           else (let Neg = (ID v = of_char CHR ''*'' \<and> V l = Token Int_Ty (- 1));
                     NeedsBracket = (\<not> (Neg \<and> PrintedCount = 0)
                        \<and> (NeedsBracket_by_parent (Node v l r) Parent IsLeft \<or> (Parent \<noteq> Null \<and> Neg)))
                 in case (if Neg then Some (''-'', PrintedCount)
                          else (case PrintTree vars l (Node v l r) PrintedCount True of
                                  None \<Rightarrow> None
                                | Some (s, c) \<Rightarrow>
                                    if r = Null then None
                                    else Some (s @ (if \<not> (ID v = of_char CHR ''*'' \<and> Ty (V l) = Int_Ty
                                                          \<and> Ty (V r) \<noteq> Int_Ty)
                                                    then [char_of (ID v)] else []), c))) of
                      None \<Rightarrow> None
                    | Some (sl, c1) \<Rightarrow>
                        (case PrintTree vars r (Node v l r) c1 False of
                           None \<Rightarrow> None
                         | Some (sr, c2) \<Rightarrow>
                             Some ((if NeedsBracket then ''('' else [])
                                   @ sl @ sr @ (if NeedsBracket then '')'' else []), c2 + 1))))
      | Function \<Rightarrow>
          (case Func_text (ID v) of
             None \<Rightarrow> None
           | Some name \<Rightarrow>
               (case PrintTree vars l (Node v l r) PrintedCount True of
                  None \<Rightarrow> None
                | Some (sl, c1) \<Rightarrow>
                    (case (if Func_NParam (ID v) = 2
                           then (case PrintTree vars r (Node v l r) c1 False of
                                   None \<Rightarrow> None
                                 | Some (s, c) \<Rightarrow> Some ('','' @ s, c))
                           else Some ([], c1)) of
                       None \<Rightarrow> None
                     | Some (sr, c2) \<Rightarrow> Some (name @ ''('' @ sl @ sr @ '')'', c2 + 1)))))"

text \<open>
  \<^verbatim>\<open>Expr::Print\<close> when the flag \<^verbatim>\<open>DividedbyZero\<close> is down: the text of the line up to its
  newline.
\<close>

definition Print :: "string list \<Rightarrow> ExprNode \<Rightarrow> string option" where
  "Print vars Root =
     (if Root \<noteq> Null then map_option fst (PrintTree vars Root Null 0 False) else Some ''NULL'')"

section \<open>A round\<close>

text \<open>
  \<^verbatim>\<open>Expr::Expr(const std::vector<Token>&)\<close>: build the tree, then simplify it unless the
  constructor has returned early.
\<close>

definition Expr_of_Tokens :: "residual \<Rightarrow> Token list \<Rightarrow> round \<Rightarrow> (ExprNode \<times> round) option" where
  "Expr_of_Tokens Rs Toks st =
     (case Expr_build Toks st of
        None \<Rightarrow> None
      | Some (Root, go, st1) \<Rightarrow> if go then Simplify Rs Root st1 else Some (Root, st1))"

text \<open>\<^verbatim>\<open>Expr::Expr(const Expr& F, int DX)\<close>.\<close>

definition Expr_Partial :: "residual \<Rightarrow> ExprNode \<Rightarrow> int \<Rightarrow> round \<Rightarrow> (ExprNode \<times> round) option" where
  "Expr_Partial Rs F_Root DX st =
     (case Partial F_Root DX of
        None \<Rightarrow> None
      | Some Root \<Rightarrow> Simplify Rs Root (st\<lparr>DividedbyZero := False\<rparr>))"

text \<open>The body of the loop of \<^verbatim>\<open>main\<close> over the entries of \<^verbatim>\<open>VarMap\<close>.\<close>

definition derive :: "residual \<Rightarrow> ExprNode \<Rightarrow> string \<times> int \<Rightarrow> round \<Rightarrow> round option" where
  "derive Rs Original entry st =
     (case Expr_Partial Rs Original (snd entry) st of
        None \<Rightarrow> None
      | Some (Root, st1) \<Rightarrow>
          if DividedbyZero st1 then Some st1
          else (case Print (Vars st1) Root of
                  None \<Rightarrow> None
                | Some text \<Rightarrow> Some (puts (fst entry @ '': '' @ text) st1)))"

fun derive_all :: "residual \<Rightarrow> ExprNode \<Rightarrow> (string \<times> int) list \<Rightarrow> round \<Rightarrow> round option" where
  "derive_all Rs Original [] st = Some st"
| "derive_all Rs Original (entry # entries) st =
     (case derive Rs Original entry st of
        None \<Rightarrow> None
      | Some st1 \<Rightarrow> derive_all Rs Original entries st1)"

text \<open>
  One pass through the body of \<^verbatim>\<open>while (1)\<close> in \<^verbatim>\<open>main\<close> on the line read, from the
  state the previous \<^verbatim>\<open>RoundGuard\<close> has left. The result is the state at the end of the
  round, with the lines printed in it; \<open>None\<close> if the round does not get there.
\<close>

definition main_round :: "residual \<Rightarrow> string \<Rightarrow> round option" where
  "main_round Rs Expression =
     (case GenerateTokens Expression [] round0 of
        (Tokens, st1) \<Rightarrow>
          (case Expr_of_Tokens Rs Tokens st1 of
             None \<Rightarrow> None
           | Some (Original, st2) \<Rightarrow>
               if FailedToParse st2 \<or> DividedbyZero st2 then Some st2
               else derive_all Rs Original (VarMap st2) st2))"

section \<open>Relations between states\<close>




text \<open>
  The first two steps of a round: the tokens of the line, then the tree built from
  them, before it is simplified.
\<close>

definition Parse_line :: "string \<Rightarrow> (ExprNode \<times> bool \<times> round) option" where
  "Parse_line Str = (case GenerateTokens Str [] round0 of (Toks, st) \<Rightarrow> Expr_build Toks st)"







section \<open>Properties of the structural hash\<close>

lemma TraverseTreeNodes_Node_same:
  "TraverseTreeNodes (Node v a b) v = TraverseTreeNodes_Impl a v @ TraverseTreeNodes_Impl b v"
  by (simp add: TraverseTreeNodes_def)

lemma Hash_flat_swap:
  assumes "v = ADD \<or> v = MUL"
  shows "Hash (Node v a b) = Hash (Node v b a)"
proof -
  let ?f = "\<lambda>p. if p \<noteq> Null then TransformHash (Hash p) else 0"
  have "sum_list (map ?f (TraverseTreeNodes (Node v a b) v))
      = sum_list (map ?f (TraverseTreeNodes (Node v b a) v))"
    by (simp add: TraverseTreeNodes_Node_same add.commute)
  with assms show ?thesis by simp
qed

text \<open>
  C2. The structural hash is commutative under \<open>+\<close> and under \<open>*\<close>: for all operand
  subtrees \<open>a\<close> and \<open>b\<close> (null pointers included), the hash of \<open>a+b\<close> is the hash of
  \<open>b+a\<close> and the hash of \<open>a*b\<close> is the hash of \<open>b*a\<close>.
\<close>

theorem Hash_commutative_add_mul:
  "Hash (Node ADD a b) = Hash (Node ADD b a) \<and> Hash (Node MUL a b) = Hash (Node MUL b a)"
  using Hash_flat_swap [of ADD a b] Hash_flat_swap [of MUL a b] by simp

lemma Hash_positional_swap:
  assumes "v \<noteq> ADD" and "v \<noteq> MUL"
  shows "Hash (Node v a b) = Hash (Node v b a)"
  using assms by (simp add: add.commute add.left_commute)

text \<open>
  C3. The claim is that for \<open>-\<close>, \<open>/\<close> and \<open>^\<close> swapping two structurally different
  operands changes the hash. The code adds the two transformed operand hashes, and
  addition of words is commutative, so the swap never changes the hash: for the two
  distinct variables with ids 0 and 1, \<open>x-y\<close> and \<open>y-x\<close>, \<open>x/y\<close> and \<open>y/x\<close>, \<open>x^y\<close> and
  \<open>y^x\<close> hash alike, and \<^verbatim>\<open>Equal\<close> takes them for the same subtree.
\<close>

theorem Hash_swap_collision:
  "Node (Token Variable 0) Null Null \<noteq> Node (Token Variable 1) Null Null
   \<and> Hash (Node SUB (Node (Token Variable 0) Null Null) (Node (Token Variable 1) Null Null))
     = Hash (Node SUB (Node (Token Variable 1) Null Null) (Node (Token Variable 0) Null Null))
   \<and> Hash (Node DIV (Node (Token Variable 0) Null Null) (Node (Token Variable 1) Null Null))
     = Hash (Node DIV (Node (Token Variable 1) Null Null) (Node (Token Variable 0) Null Null))
   \<and> Hash (Node POW (Node (Token Variable 0) Null Null) (Node (Token Variable 1) Null Null))
     = Hash (Node POW (Node (Token Variable 1) Null Null) (Node (Token Variable 0) Null Null))
   \<and> Equal (Node SUB (Node (Token Variable 0) Null Null) (Node (Token Variable 1) Null Null))
           (Node SUB (Node (Token Variable 1) Null Null) (Node (Token Variable 0) Null Null))"
proof -
  have ne: "SUB \<noteq> ADD" "SUB \<noteq> MUL" "DIV \<noteq> ADD" "DIV \<noteq> MUL" "POW \<noteq> ADD" "POW \<noteq> MUL"
    by (simp_all add: SUB_def DIV_def POW_def ADD_def MUL_def Opr_def)
  show ?thesis
    unfolding Equal_def
    using Hash_positional_swap [OF ne(1) ne(2)] Hash_positional_swap [OF ne(3) ne(4)]
      Hash_positional_swap [OF ne(5) ne(6)]
    by simp
qed

section \<open>Properties of the rational coefficients\<close>









section \<open>Properties of the parser\<close>

lemma MergeTop_Nil: "MergeTop lvl [] E st = (True, [], E, st)"
  by (subst MergeTop.simps) simp

lemma MergeTop_keep:
  "\<not> TriggerMerge x lvl \<Longrightarrow> MergeTop lvl (os @ [x]) E st = (True, os @ [x], E, st)"
  by (subst MergeTop.simps) simp

lemma MergeTop_pop:
  "TriggerMerge x lvl \<Longrightarrow>
   MergeTop lvl (os @ [x]) (es @ [y, z]) st = MergeTop lvl os (es @ [Node (V x) y z]) st"
  by (subst MergeTop.simps) (simp add: nth_append butlast_append)

lemma operator_cell:
  assumes "c \<in> set ''+-*/^''"
  shows "OprLevel (CreateNode1 (Opr c)) False \<noteq> 0"
    and "\<not> IsIgnoredSymbol (V (CreateNode1 (Opr c)))"
    and "TriggerMerge (CreateNode1 (Opr c)) 0"
    and "V (CreateNode1 (Opr c)) = Opr c"
  using assms by (auto simp: CreateNode1_def Opr_def IsIgnoredSymbol_def TriggerMerge_def)

lemma CreateTree_three_cells:
  assumes a: "OprLevel a False = 0" "\<not> IsIgnoredSymbol (V a)"
    and b: "OprLevel b False = 0" "\<not> IsIgnoredSymbol (V b)"
    and c: "OprLevel c False = 0" "\<not> IsIgnoredSymbol (V c)"
    and c1: "c1 \<in> set ''+-*/^''" and c2: "c2 \<in> set ''+-*/^''"
  shows "CreateTree [a, CreateNode1 (Opr c1), b, CreateNode1 (Opr c2), c] st =
     Some (if TriggerMerge (CreateNode1 (Opr c1)) (OprLevel (CreateNode1 (Opr c2)) False)
           then Node (Opr c2) (Node (Opr c1) a b) c
           else Node (Opr c1) a (Node (Opr c2) b c), st)"
proof -
  let ?o1 = "CreateNode1 (Opr c1)" and ?o2 = "CreateNode1 (Opr c2)"
  note o1 = operator_cell [OF c1] and o2 = operator_cell [OF c2]
  show ?thesis
  proof (cases "TriggerMerge ?o1 (OprLevel ?o2 False)")
    case True
    have scan: "CreateTree_scan [a, ?o1, b, ?o2, c] [] [] True st = (Some ([?o2], [Node (Opr c1) a b, c]), st)"
      using a b c o1 o2 True
        MergeTop_pop [of ?o1 "OprLevel ?o2 False" "[]" "[]" a b st]
      by (simp add: MergeTop_Nil)
    have rem: "MergeRemaining [?o2] [Node (Opr c1) a b, c] st = Some (True, [Node (Opr c2) (Node (Opr c1) a b) c], st)"
      using o2 MergeTop_pop [of ?o2 0 "[]" "[]" "Node (Opr c1) a b" c st]
      by (simp add: MergeRemaining.simps MergeTop_Nil)
    show ?thesis using True a scan rem by (simp add: CreateTree_def)
  next
    case False
    have scan: "CreateTree_scan [a, ?o1, b, ?o2, c] [] [] True st = (Some ([?o1, ?o2], [a, b, c]), st)"
      using a b c o1 o2 False
        MergeTop_keep [of ?o1 "OprLevel ?o2 False" "[]" "[a, b]" st]
      by (simp add: MergeTop_Nil)
    have rem: "MergeRemaining [?o1, ?o2] [a, b, c] st = Some (True, [Node (Opr c1) a (Node (Opr c2) b c)], st)"
      using o1 o2 MergeTop_pop [of ?o2 0 "[?o1]" "[a]" b c st]
        MergeTop_pop [of ?o1 0 "[]" "[]" a "Node (Opr c2) b c" st]
      by (simp add: MergeRemaining.simps MergeTop_Nil)
    show ?thesis using False a scan rem by (simp add: CreateTree_def)
  qed
qed
text \<open>
  C7, as amended. Take three operands \<open>a\<close>, \<open>b\<close>, \<open>c\<close> (cells of precedence level 0)
  separated by two operators \<open>c1\<close>, \<open>c2\<close> of \<open>+ - * / ^\<close> that have the same precedence.
  The operator on top of the stack is merged before the incoming one is pushed, giving
  the left-nested tree \<open>(a c1 b) c2 c\<close>, only when \<open>c1\<close> is \<open>-\<close> or \<open>/\<close>. When it is \<open>+\<close>,
  \<open>*\<close> or \<open>^\<close>, merging needs a strictly greater precedence and the tree is the
  right-nested \<open>a c1 (b c2 c)\<close>.
\<close>

theorem CreateTree_equal_precedence:
  assumes "OprLevel a False = 0" "\<not> IsIgnoredSymbol (V a)"
    and "OprLevel b False = 0" "\<not> IsIgnoredSymbol (V b)"
    and "OprLevel c False = 0" "\<not> IsIgnoredSymbol (V c)"
    and "c1 \<in> set ''+-*/^''" "c2 \<in> set ''+-*/^''"
    and "OprLevel (CreateNode1 (Opr c1)) False = OprLevel (CreateNode1 (Opr c2)) False"
  shows "CreateTree [a, CreateNode1 (Opr c1), b, CreateNode1 (Opr c2), c] st =
     Some (if c1 = CHR ''-'' \<or> c1 = CHR ''/''
           then Node (Opr c2) (Node (Opr c1) a b) c
           else Node (Opr c1) a (Node (Opr c2) b c), st)"
proof -
  have "TriggerMerge (CreateNode1 (Opr c1)) (OprLevel (CreateNode1 (Opr c2)) False)
        \<longleftrightarrow> c1 = CHR ''-'' \<or> c1 = CHR ''/''"
    using assms(7) unfolding assms(9) [symmetric]
    by (auto simp: TriggerMerge_def CreateNode1_def Opr_def)
  then show ?thesis
    using CreateTree_three_cells [OF assms(1-8), of st] by simp
qed

theorem CreateTree_equal_precedence_witness:
  "CreateTree [CreateNode1 (Token Variable 0), CreateNode1 (Opr CHR ''-''),
               CreateNode1 (Token Variable 1), CreateNode1 (Opr CHR ''+''),
               CreateNode1 (Token Variable 2)] round0
   = Some (Node ADD (Node SUB (CreateNode1 (Token Variable 0)) (CreateNode1 (Token Variable 1)))
                    (CreateNode1 (Token Variable 2)), round0)
   \<and> CreateTree [CreateNode1 (Token Variable 0), CreateNode1 (Opr CHR ''*''),
               CreateNode1 (Token Variable 1), CreateNode1 (Opr CHR ''/''),
               CreateNode1 (Token Variable 2)] round0
   = Some (Node MUL (CreateNode1 (Token Variable 0))
                    (Node DIV (CreateNode1 (Token Variable 1)) (CreateNode1 (Token Variable 2))), round0)"
  using CreateTree_equal_precedence [of "CreateNode1 (Token Variable 0)" "CreateNode1 (Token Variable 1)"
      "CreateNode1 (Token Variable 2)" "CHR ''-''" "CHR ''+''" round0]
    CreateTree_equal_precedence [of "CreateNode1 (Token Variable 0)" "CreateNode1 (Token Variable 1)"
      "CreateNode1 (Token Variable 2)" "CHR ''*''" "CHR ''/''" round0]
  by (simp add: CreateNode1_def Opr_def IsIgnoredSymbol_def ADD_def SUB_def MUL_def DIV_def)

text \<open>
  C7 as stated fails: the line \<open>a+b+c\<close> builds \<open>a+(b+c)\<close>, not \<open>(a+b)+c\<close>, and \<open>a*b*c\<close>
  builds \<open>a*(b*c)\<close>.
\<close>

theorem a_plus_b_plus_c_nests_right:
  "map_option fst (Parse_line ''a+b+c'')
     = Some (Node ADD (CreateNode1 (Token Variable 0))
               (Node ADD (CreateNode1 (Token Variable 1)) (CreateNode1 (Token Variable 2))))
   \<and> map_option fst (Parse_line ''a+b+c'')
     \<noteq> Some (Node ADD (Node ADD (CreateNode1 (Token Variable 0)) (CreateNode1 (Token Variable 1)))
               (CreateNode1 (Token Variable 2)))
   \<and> map_option fst (Parse_line ''a*b*c'')
     = Some (Node MUL (CreateNode1 (Token Variable 0))
               (Node MUL (CreateNode1 (Token Variable 1)) (CreateNode1 (Token Variable 2))))"
  by code_simp

text \<open>
  C8 as stated fails: the line \<open>xy\<close> is one alphabetic run, hence one token, the
  variable named \<open>xy\<close>, and the tree is that variable alone, not a product.
\<close>

theorem xy_is_one_variable:
  "fst (GenerateTokens ''xy'' [] round0) = [Token Variable 0]
   \<and> Vars (snd (GenerateTokens ''xy'' [] round0)) = [''xy'']
   \<and> map_option fst (Parse_line ''xy'') = Some (CreateNode1 (Token Variable 0))
   \<and> CreateNode1 (Token Variable 0) \<noteq> Node MUL (CreateNode1 (Token Variable 0)) (CreateNode1 (Token Variable 1))"
  by code_simp

text \<open>
  C8, as amended. The lines \<open>2x\<close> and \<open>3sin(x)\<close> build products by implicit
  multiplication, and so do two one-letter variables that a separator keeps apart,
  \<open>x y\<close>; the line \<open>xy\<close> builds the single variable named \<open>xy\<close>.
\<close>

theorem implicit_multiplication:
  "map_option fst (Parse_line ''2x'') = Some (Node MUL (Const 2) (CreateNode1 (Token Variable 0)))
   \<and> map_option fst (Parse_line ''3sin(x)'')
       = Some (Node MUL (Const 3) (Node (Token Function FUNC_sin) (CreateNode1 (Token Variable 0)) Null))
   \<and> map_option fst (Parse_line ''x y'')
       = Some (Node MUL (CreateNode1 (Token Variable 0)) (CreateNode1 (Token Variable 1)))
   \<and> map_option (\<lambda>(Root, go, st). Vars st) (Parse_line ''x y'') = Some [''x'', ''y'']
   \<and> map_option fst (Parse_line ''xy'') = Some (CreateNode1 (Token Variable 0))
   \<and> map_option (\<lambda>(Root, go, st). Vars st) (Parse_line ''xy'') = Some [''xy'']"
  by code_simp

section \<open>Properties of the differentiator\<close>

lemma Duplicate_same: "Duplicate n = n"
  by (induction n) auto

text \<open>
  The two rules that differentiate a node they build themselves agree with
  \<^verbatim>\<open>Partial\<close> applied to that node.
\<close>

lemma Partial_log:
  "Partial (Node (Token Function FUNC_log) a b) DX
     = DX_div (Partial (Ln b) DX) (Partial (Ln a) DX) (Ln b) (Ln a)"
  by (simp add: Derivative_def DX_log_def Ln_def CreateNode3_def FUNC_log_def FUNC_ln_def)

lemma Partial_pow:
  "Partial (Node POW a b) DX = DX_exp (Partial (Mul b (Ln a)) DX) None (Mul b (Ln a)) Null"
  by (simp add: Derivative_def DX_pow_def Ln_def Mul_def MUL_def POW_def Opr_def PartialOpr_def
      CreateNode3_def FUNC_ln_def)

text \<open>
  C9. For every variable id \<open>x\<close>: the partial derivative of an integer literal is the
  constant 0, and the partial derivative of the variable \<open>y\<close> is the constant 1 if
  \<open>y = x\<close> and the constant 0 otherwise.
\<close>

theorem Partial_leaves:
  "Partial (Const c) x = Some (Const 0)
   \<and> Partial (CreateNode1 (Token Variable y)) x = Some (Const (if y = x then 1 else 0))"
  by (simp add: Const_def CreateNode1_def)


section \<open>Termination of the fixed-point driver\<close>




section \<open>Reports of a division by zero\<close>





















section \<open>One derivation\<close>

lemma Simplify_passes_Int_leaf:
  "Simplify_passes Rs (Node (Token Int_Ty i) Null Null) st = (Node (Token Int_Ty i) Null Null, st)"
  by (simp add: Simplify_passes_def Simplify_All01_def Simplify_Rotate_def Simplify_01_def
      Simplify_Neg_def Simplify_SpecialFuncs_def MUL_def Opr_def)

lemma Simplify_loop_Int_leaf:
  "Simplify_loop Rs {} (Node (Token Int_Ty i) Null Null) st = Some (Node (Token Int_Ty i) Null Null, st)"
proof -
  let ?p = "Node (Token Int_Ty i) Null Null"
  have "Simplify_loop Rs {Hash ?p} ?p st = Some (?p, st)"
    by (subst Simplify_loop.simps) (simp only: Simplify_passes_Int_leaf prod.case insertI1 not_True_eq_False not_not if_False)
  then show ?thesis
    by (subst Simplify_loop.simps) (simp only: Simplify_passes_Int_leaf prod.case empty_iff not_False_eq_True if_True)
qed

lemma Simplify_zero_leaf: "Simplify Rs (Const 0) st = Some (Const 0, st)"
  by (simp add: Simplify_def Const_def CreateNode1_def Simplify_loop_Int_leaf FinalFold_def
      FinalFold_Neg_def MUL_def Opr_def FinalFold_loop.simps Simplify_All01_def
      Simplify_Rotate_def Simplify_01_def)








section \<open>A line without tokens\<close>

lemma GenerateTokens_loop_blank:
  assumes "\<forall>c \<in> set Str. Judge c = TC_Null"
  shows "GenerateTokens_loop Str Begin Idx TC_Null Toks st = (Begin, TC_Null, Toks, st)"
  using assms
proof (induction Str Begin Idx TC_Null Toks st rule: GenerateTokens_loop.induct)
  case (1 Str Begin Idx Toks st)
  show ?case
  proof (cases "Idx < length Str")
    case True
    with 1(4) have j: "Judge (Str ! Idx) = TC_Null" by simp
    have "GenerateTokens_loop Str Begin (Idx + 1) TC_Null Toks st = (Begin, TC_Null, Toks, st)"
      using 1(2) [OF True] j 1(4) by simp
    with True j show ?thesis
      by (subst GenerateTokens_loop.simps) simp
  next
    case False
    then show ?thesis by (subst GenerateTokens_loop.simps) simp
  qed
qed

lemma Simplify_CreateNode0: "Simplify Rs CreateNode0 st = Some (CreateNode0, st)"
  using Simplify_zero_leaf [of Rs st] by (simp add: Const_def CreateNode1_def CreateNode0_def)

text \<open>
  C10. If no character of the line is a digit, a letter or an operator character, then
  the lexer makes no token and leaves the state alone, the constructor builds the
  default node, the integer 0, and goes on to simplify it, and the round ends in the
  state it began in: nothing has been printed, neither flag is up, and the variable
  table is empty, so that no derivative has been asked for.
\<close>

theorem blank_line_prints_nothing:
  assumes "\<forall>c \<in> set Expression. Judge c = TC_Null"
  shows "GenerateTokens Expression [] round0 = ([], round0)
    \<and> Expr_build [] round0 = Some (CreateNode0, True, round0)
    \<and> main_round Rs Expression = Some round0
    \<and> stdout round0 = [] \<and> VarMap round0 = []"
proof -
  have t: "GenerateTokens Expression [] round0 = ([], round0)"
    using GenerateTokens_loop_blank [OF assms, of 0 0 "[]" round0]
    by (simp add: GenerateTokens_def ParseToken_def)
  have r: "round0\<lparr>DividedbyZero := False\<rparr> = round0"
    by (simp add: round0_def)
  have b: "Expr_build [] round0 = Some (CreateNode0, True, round0)"
    by (simp add: Expr_build_def r CreateTree_def CreateNode0_def)
  have "main_round Rs Expression = Some round0"
    by (simp add: main_round_def t Expr_of_Tokens_def b Simplify_CreateNode0) (simp add: round0_def)
  with t b show ?thesis by (simp add: round0_def)
qed

theorem blank_line_prints_nothing_witness:
  "\<forall>Rs. map Judge '' ? '' = [TC_Null, TC_Null, TC_Null] \<and> main_round Rs '' ? '' = Some round0
     \<and> main_round Rs [] = Some round0 \<and> stdout round0 = []"
proof -
  have 1: "\<forall>c \<in> set '' ? ''. Judge c = TC_Null" by code_simp
  have 2: "\<forall>c \<in> set ''''. Judge c = TC_Null" by simp
  show ?thesis
    using blank_line_prints_nothing [OF 1] blank_line_prints_nothing [OF 2] 1 by simp
qed

section \<open>The variable table after lexing\<close>

lemma string_less_irrefl: "\<not> string_less a a"
  by (induction a) auto










section \<open>What parsing does to the state\<close>














section \<open>The lines of a round\<close>







subsection \<open>The order of the derivative lines\<close>








end
